theory Spec2Isabelle
  imports Main "HOL-Library.AList" "HOL-Library.Sublist"
begin

section \<open>The artifact store: a file system as the handlers see it\<close>

text \<open>
  A path is the list of its components below the root; \<open>Path / name\<close> appends a
  component. Times are integers (microseconds since the epoch), file contents are byte
  strings. The store is an association list from paths to nodes, in listing order, so
  that \<open>iterdir\<close> can be computed.
\<close>

type_synonym path = "string list"
type_synonym time = int

datatype node = File (mtime: time) (content: string) | Dir (mtime: time) (dsize: nat)

type_synonym fs = "(path \<times> node) list"

datatype errno = ENOENT | EEXIST | EISDIR | ENOTDIR | ENOTEMPTY | EINVAL | ENOSPC

text \<open>
  Python exceptions. \<open>FileNotFoundError\<close> and \<open>ValueError\<close> are the ones the source
  raises itself, with their message; \<open>OSError\<close> is raised by a file-system call (errno,
  path, second path of a rename); \<open>External\<close> is raised by a collaborator or by the
  connection library and carries its \<open>str\<close>.
\<close>

datatype error =
    FileNotFoundError string
  | ValueError string
  | TypeError string
  | KeyError string
  | OSError errno path "path option"
  | External string

definition path_str :: "path \<Rightarrow> string" where
  "path_str p = (if p = [] then ''/'' else concat (map (\<lambda>c. CHR ''/'' # c) p))"

definition strerror :: "errno \<Rightarrow> string" where
  "strerror e = (case e of
       ENOENT \<Rightarrow> ''[Errno 2] No such file or directory''
     | EEXIST \<Rightarrow> ''[Errno 17] File exists''
     | EISDIR \<Rightarrow> ''[Errno 21] Is a directory''
     | ENOTDIR \<Rightarrow> ''[Errno 20] Not a directory''
     | ENOTEMPTY \<Rightarrow> ''[Errno 39] Directory not empty''
     | EINVAL \<Rightarrow> ''[Errno 22] Invalid argument''
     | ENOSPC \<Rightarrow> ''[Errno 28] No space left on device'')"

definition quoted :: "path \<Rightarrow> string" where
  "quoted p = [CHR 0x27] @ path_str p @ [CHR 0x27]"

text \<open>\<open>str(e)\<close>.\<close>

definition str_of :: "error \<Rightarrow> string" where
  "str_of e = (case e of
       FileNotFoundError m \<Rightarrow> m
     | ValueError m \<Rightarrow> m
     | TypeError m \<Rightarrow> m
     | KeyError k \<Rightarrow> [CHR 0x27] @ k @ [CHR 0x27]
     | OSError n p None \<Rightarrow> strerror n @ '': '' @ quoted p
     | OSError n p (Some q) \<Rightarrow> strerror n @ '': '' @ quoted p @ '' -> '' @ quoted q
     | External m \<Rightarrow> m)"

definition node_at :: "fs \<Rightarrow> path \<Rightarrow> node option" where
  "node_at fs p = (if p = [] then Some (Dir 0 0) else map_of fs p)"

definition path_exists :: "fs \<Rightarrow> path \<Rightarrow> bool" where
  "path_exists fs p = (case node_at fs p of None \<Rightarrow> False | Some n \<Rightarrow> True)"

definition is_file :: "fs \<Rightarrow> path \<Rightarrow> bool" where
  "is_file fs p = (case node_at fs p of Some (File m c) \<Rightarrow> True | _ \<Rightarrow> False)"

definition is_dir :: "fs \<Rightarrow> path \<Rightarrow> bool" where
  "is_dir fs p = (case node_at fs p of Some (Dir dm s) \<Rightarrow> True | _ \<Rightarrow> False)"

text \<open>What a call that creates or replaces the entry \<open>p\<close> finds wrong with its parent.\<close>

definition parent_err :: "fs \<Rightarrow> path \<Rightarrow> errno option" where
  "parent_err fs p = (case node_at fs (butlast p) of
       None \<Rightarrow> Some ENOENT
     | Some (File m c) \<Rightarrow> Some ENOTDIR
     | Some (Dir dm s) \<Rightarrow> None)"

definition new_dir_size :: nat where
  "new_dir_size = 4096"

text \<open>\<open>Path.mkdir(exist_ok=True)\<close>, without \<open>parents\<close>, at time \<open>now\<close>.\<close>

definition mkdir_exist_ok :: "path \<Rightarrow> time \<Rightarrow> fs \<Rightarrow> error + fs" where
  "mkdir_exist_ok p now fs = (case node_at fs p of
       Some (Dir dm s) \<Rightarrow> Inr fs
     | Some (File m c) \<Rightarrow> Inl (OSError EEXIST p None)
     | None \<Rightarrow> (case parent_err fs p of
          Some n \<Rightarrow> Inl (OSError n p None)
        | None \<Rightarrow> Inr (fs @ [(p, Dir now new_dir_size)])))"

text \<open>\<open>shutil.rmtree\<close>: the directory and everything below it.\<close>

definition rmtree :: "path \<Rightarrow> fs \<Rightarrow> error + fs" where
  "rmtree p fs = (case node_at fs p of
       None \<Rightarrow> Inl (OSError ENOENT p None)
     | Some (File m c) \<Rightarrow> Inl (OSError ENOTDIR p None)
     | Some (Dir dm s) \<Rightarrow> Inr (filter (\<lambda>(q, n). \<not> prefix p q) fs))"

text \<open>\<open>Path.unlink()\<close>, without \<open>missing_ok\<close>.\<close>

definition unlink :: "path \<Rightarrow> fs \<Rightarrow> error + fs" where
  "unlink p fs = (case node_at fs p of
       None \<Rightarrow> Inl (OSError ENOENT p None)
     | Some (Dir dm s) \<Rightarrow> Inl (OSError EISDIR p None)
     | Some (File m c) \<Rightarrow> Inr (AList.delete p fs))"

definition has_children :: "fs \<Rightarrow> path \<Rightarrow> bool" where
  "has_children fs d = list_ex (\<lambda>(q, n). strict_prefix d q) fs"

definition move_entry :: "path \<Rightarrow> path \<Rightarrow> path \<times> node \<Rightarrow> path \<times> node" where
  "move_entry src dst = (\<lambda>(q, n).
     if prefix src q then (dst @ drop (length src) q, n) else (q, n))"

text \<open>\<open>Path.rename\<close> (POSIX \<open>rename\<close>): a file replaces a file, a directory replaces an
  empty directory.\<close>

definition rename :: "path \<Rightarrow> path \<Rightarrow> fs \<Rightarrow> error + fs" where
  "rename src dst fs = (case node_at fs src of
       None \<Rightarrow> Inl (OSError ENOENT src (Some dst))
     | Some (File m c) \<Rightarrow>
         (case parent_err fs dst of
            Some n \<Rightarrow> Inl (OSError n src (Some dst))
          | None \<Rightarrow>
              if is_dir fs dst then Inl (OSError EISDIR src (Some dst))
              else Inr (AList.delete src (AList.delete dst fs) @ [(dst, File m c)]))
     | Some (Dir dm s) \<Rightarrow>
         (case parent_err fs dst of
            Some n \<Rightarrow> Inl (OSError n src (Some dst))
          | None \<Rightarrow>
              if is_file fs dst then Inl (OSError ENOTDIR src (Some dst))
              else if has_children fs dst then Inl (OSError ENOTEMPTY src (Some dst))
              else if prefix src dst then Inl (OSError EINVAL src (Some dst))
              else Inr (map (move_entry src dst) (AList.delete dst fs))))"

text \<open>\<open>Path.stat()\<close>: size and modification time.\<close>

definition st_size :: "node \<Rightarrow> nat" where
  "st_size n = (case n of File m c \<Rightarrow> length c | Dir dm s \<Rightarrow> s)"

definition stat :: "fs \<Rightarrow> path \<Rightarrow> error + node" where
  "stat fs p = (case node_at fs p of
       None \<Rightarrow> Inl (OSError ENOENT p None)
     | Some n \<Rightarrow> Inr n)"

text \<open>\<open>directory.iterdir()\<close>: the entries directly in the directory.\<close>

definition iterdir :: "fs \<Rightarrow> path \<Rightarrow> error + path list" where
  "iterdir fs d = (case node_at fs d of
       None \<Rightarrow> Inl (OSError ENOENT d None)
     | Some (File m c) \<Rightarrow> Inl (OSError ENOTDIR d None)
     | Some (Dir dm s) \<Rightarrow> Inr (filter (\<lambda>q. q \<noteq> [] \<and> butlast q = d) (map fst fs)))"

text \<open>
  \<open>open(path, "wb")\<close> followed by \<open>f.write(content)\<close> at time \<open>now\<close>. The device can
  take \<open>room\<close> more bytes (\<open>None\<close>: enough); a write that does not fit leaves the part
  that did and raises.
\<close>

definition write_file :: "path \<Rightarrow> string \<Rightarrow> time \<Rightarrow> nat option \<Rightarrow> fs \<Rightarrow> error option \<times> fs" where
  "write_file p data now room fs =
     (if is_dir fs p then (Some (OSError EISDIR p None), fs)
      else case parent_err fs p of
          Some n \<Rightarrow> (Some (OSError n p None), fs)
        | None \<Rightarrow>
            (case room of
               None \<Rightarrow> (None, AList.update p (File now data) fs)
             | Some k \<Rightarrow>
                 if length data \<le> k then (None, AList.update p (File now data) fs)
                 else (Some (OSError ENOSPC p None), AList.update p (File now (take k data)) fs)))"

section \<open>Path names\<close>

text \<open>\<open>PurePath.name\<close>, \<open>suffix\<close> and \<open>stem\<close>, as pathlib computes them from the last dot.\<close>

definition path_name :: "path \<Rightarrow> string" where
  "path_name p = (if p = [] then [] else last p)"

definition rfind_dot :: "string \<Rightarrow> nat option" where
  "rfind_dot name =
     (let r = takeWhile (\<lambda>c. c \<noteq> CHR ''.'') (rev name)
      in if length r = length name then None else Some (length name - length r - 1))"

definition suffix_of :: "string \<Rightarrow> string" where
  "suffix_of name = (case rfind_dot name of
       None \<Rightarrow> []
     | Some i \<Rightarrow> if 0 < i \<and> i < length name - 1 then drop i name else [])"

definition stem_of :: "string \<Rightarrow> string" where
  "stem_of name = (case rfind_dot name of
       None \<Rightarrow> name
     | Some i \<Rightarrow> if 0 < i \<and> i < length name - 1 then take i name else name)"

section \<open>The pipeline (pipeline.py)\<close>

datatype ProcessingStage = SEPARATION | MIDI_CONVERSION | VALIDATION | COMPLETE

record progress_dict =
  stage :: ProcessingStage
  percent :: nat
  message :: string

text \<open>
  The two external collaborators are parameters. Each gets its arguments and the store
  and returns the store as it left it, with the exception it raised, if any.
  \<open>new_separator\<close> is what constructing \<open>Separator('spleeter:4stems')\<close> raises.
\<close>

record collab =
  new_separator :: "error option"
  separate_to_file :: "path \<Rightarrow> path \<Rightarrow> fs \<Rightarrow> error option \<times> fs"
  predict_and_save :: "path \<Rightarrow> path \<Rightarrow> fs \<Rightarrow> error option \<times> fs"

definition stems_dir :: "path \<Rightarrow> string \<Rightarrow> path" where
  "stems_dir output_dir task_id = output_dir @ [task_id @ ''_stems'']"

definition separate_drums ::
    "collab \<Rightarrow> time \<Rightarrow> path \<Rightarrow> string \<Rightarrow> path \<Rightarrow> fs \<Rightarrow> (error + path) \<times> fs" where
  "separate_drums C now output_dir task_id audio_path fs =
     (case new_separator C of
        Some e \<Rightarrow> (Inl e, fs)
      | None \<Rightarrow>
     (let temp_output = stems_dir output_dir task_id in
      case mkdir_exist_ok temp_output now fs of
        Inl e \<Rightarrow> (Inl e, fs)
      | Inr fs1 \<Rightarrow>
     (case separate_to_file C audio_path temp_output fs1 of
        (Some e, fs2) \<Rightarrow> (Inl e, fs2)
      | (None, fs2) \<Rightarrow>
     (let stem_folder = temp_output @ [stem_of (path_name audio_path)];
          drum_source = stem_folder @ [''drums.wav'']
      in if path_exists fs2 drum_source then
           (let drum_final = output_dir @ [task_id @ ''_drums.wav''] in
            case rename drum_source drum_final fs2 of
              Inl e \<Rightarrow> (Inl e, fs2)
            | Inr fs3 \<Rightarrow>
           (case rmtree temp_output fs3 of
              Inl e \<Rightarrow> (Inl e, fs3)
            | Inr fs4 \<Rightarrow> (Inr drum_final, fs4)))
         else (Inl (FileNotFoundError
                 (''Spleeter did not generate drums.wav at '' @ path_str drum_source)), fs2)))))"

definition convert_to_midi ::
    "collab \<Rightarrow> path \<Rightarrow> string \<Rightarrow> path \<Rightarrow> fs \<Rightarrow> (error + path) \<times> fs" where
  "convert_to_midi C output_dir task_id drum_path fs =
     (let midi_output = output_dir @ [task_id @ ''_drums.mid''] in
      case predict_and_save C drum_path output_dir fs of
        (Some e, fs1) \<Rightarrow> (Inl e, fs1)
      | (None, fs1) \<Rightarrow>
     (let generated_midi = output_dir @ [stem_of (path_name drum_path) @ ''_basic_pitch.mid'']
      in if path_exists fs1 generated_midi then
           (case rename generated_midi midi_output fs1 of
              Inl e \<Rightarrow> (Inl e, fs1)
            | Inr fs2 \<Rightarrow> (Inr midi_output, fs2))
         else (Inl (FileNotFoundError
                 (''Basic-Pitch did not generate MIDI at '' @ path_str generated_midi)), fs1)))"

text \<open>\<open>open(midi_path, 'rb')\<close> and \<open>f.read(4)\<close>.\<close>

definition read_header :: "fs \<Rightarrow> path \<Rightarrow> error + string" where
  "read_header fs p = (case node_at fs p of
       None \<Rightarrow> Inl (OSError ENOENT p None)
     | Some (Dir dm s) \<Rightarrow> Inl (OSError EISDIR p None)
     | Some (File m c) \<Rightarrow> Inr (take 4 c))"

definition validate_outputs :: "fs \<Rightarrow> path \<Rightarrow> path \<Rightarrow> error option" where
  "validate_outputs fs drum_path midi_path =
     (case node_at fs drum_path of
        None \<Rightarrow> Some (FileNotFoundError (''Drum audio not found: '' @ path_str drum_path))
      | Some dn \<Rightarrow>
     (if st_size dn < 1000
      then Some (ValueError (''Drum audio file too small: '' @ path_str drum_path))
      else case node_at fs midi_path of
        None \<Rightarrow> Some (FileNotFoundError (''MIDI file not found: '' @ path_str midi_path))
      | Some mn \<Rightarrow>
     (if st_size mn < 100
      then Some (ValueError (''MIDI file too small: '' @ path_str midi_path))
      else case read_header fs midi_path of
        Inl e \<Rightarrow> Some e
      | Inr header \<Rightarrow>
          if header = ''MThd'' then None
          else Some (ValueError (''Invalid MIDI file format: '' @ path_str midi_path)))))"

text \<open>
  \<open>process\<close> is an async generator. Its state is the \<open>yield\<close> it is suspended at,
  with the local variables alive there; \<open>gen_next\<close> resumes it up to the next
  \<open>yield\<close>, to its end, or to the exception a stage raises.
\<close>

datatype gen_state =
    Start
  | At_sep0
  | At_sep100 path
  | At_midi0 path
  | At_midi100 path path
  | At_val0 path path
  | At_val100
  | At_complete
  | Exhausted

datatype gen_result = Yield progress_dict | StopIteration | Raise error

fun gen_next ::
    "collab \<Rightarrow> time \<Rightarrow> path \<Rightarrow> string \<Rightarrow> path \<Rightarrow> gen_state \<Rightarrow> fs \<Rightarrow> gen_result \<times> gen_state \<times> fs" where
  "gen_next C now out task_id audio_path Start fs =
     (Yield \<lparr>stage = SEPARATION, percent = 0, message = ''Initializing Spleeter engine...''\<rparr>,
      At_sep0, fs)"
| "gen_next C now out task_id audio_path At_sep0 fs =
     (case separate_drums C now out task_id audio_path fs of
        (Inl e, fs') \<Rightarrow> (Raise e, Exhausted, fs')
      | (Inr drum_path, fs') \<Rightarrow>
          (Yield \<lparr>stage = SEPARATION, percent = 100, message = ''Drum stem isolated successfully''\<rparr>,
           At_sep100 drum_path, fs'))"
| "gen_next C now out task_id audio_path (At_sep100 drum_path) fs =
     (Yield \<lparr>stage = MIDI_CONVERSION, percent = 0, message = ''Analyzing drum transients...''\<rparr>,
      At_midi0 drum_path, fs)"
| "gen_next C now out task_id audio_path (At_midi0 drum_path) fs =
     (case convert_to_midi C out task_id drum_path fs of
        (Inl e, fs') \<Rightarrow> (Raise e, Exhausted, fs')
      | (Inr midi_path, fs') \<Rightarrow>
          (Yield \<lparr>stage = MIDI_CONVERSION, percent = 100, message = ''MIDI extraction complete''\<rparr>,
           At_midi100 drum_path midi_path, fs'))"
| "gen_next C now out task_id audio_path (At_midi100 drum_path midi_path) fs =
     (Yield \<lparr>stage = VALIDATION, percent = 0, message = ''Validating output files...''\<rparr>,
      At_val0 drum_path midi_path, fs)"
| "gen_next C now out task_id audio_path (At_val0 drum_path midi_path) fs =
     (case validate_outputs fs drum_path midi_path of
        Some e \<Rightarrow> (Raise e, Exhausted, fs)
      | None \<Rightarrow>
          (Yield \<lparr>stage = VALIDATION, percent = 100, message = ''All outputs validated''\<rparr>,
           At_val100, fs))"
| "gen_next C now out task_id audio_path At_val100 fs =
     (Yield \<lparr>stage = COMPLETE, percent = 100,
             message = ''Processing complete - ready for download''\<rparr>,
      At_complete, fs)"
| "gen_next C now out task_id audio_path At_complete fs = (StopIteration, Exhausted, fs)"
| "gen_next C now out task_id audio_path Exhausted fs = (StopIteration, Exhausted, fs)"

fun gen_rank :: "gen_state \<Rightarrow> nat" where
  "gen_rank Start = 0"
| "gen_rank At_sep0 = 1"
| "gen_rank (At_sep100 d) = 2"
| "gen_rank (At_midi0 d) = 3"
| "gen_rank (At_midi100 d m) = 4"
| "gen_rank (At_val0 d m) = 5"
| "gen_rank At_val100 = 6"
| "gen_rank At_complete = 7"
| "gen_rank Exhausted = 8"

text \<open>
  Consuming the generator to its end (\<open>async for\<close> with a consumer that never fails):
  the events it yields, the exception that ended it, if any, and the store it leaves.
\<close>

function drain ::
    "collab \<Rightarrow> (nat \<Rightarrow> time) \<Rightarrow> path \<Rightarrow> string \<Rightarrow> path \<Rightarrow> gen_state \<Rightarrow> fs \<Rightarrow> progress_dict list \<times> error option \<times> fs" where
  "drain C clock out task_id audio_path g fs =
     (case gen_next C (clock (gen_rank g)) out task_id audio_path g fs of
        (Yield p, g', fs') \<Rightarrow>
          (case drain C clock out task_id audio_path g' fs' of
             (ps, r, fs'') \<Rightarrow> (p # ps, r, fs''))
      | (StopIteration, g', fs') \<Rightarrow> ([], None, fs')
      | (Raise e, g', fs') \<Rightarrow> ([], Some e, fs'))"
  by pat_completeness auto
termination
  apply (relation "measure (\<lambda>(C, clock, out, task_id, audio_path, g, fs). 8 - gen_rank g)")
   apply simp
  subgoal for C clock out task_id audio_path g fs x1 x2 p g' z
    by (cases g) (auto split: prod.splits sum.splits option.splits)
  done

declare drain.simps [simp del]

definition process :: "collab \<Rightarrow> (nat \<Rightarrow> time) \<Rightarrow> path \<Rightarrow> string \<Rightarrow> path \<Rightarrow> fs \<Rightarrow> progress_dict list \<times> error option \<times> fs" where
  "process C clock out task_id audio_path fs = drain C clock out task_id audio_path Start fs"

section \<open>The application (main.py)\<close>

subsection \<open>Models, configuration, state\<close>

datatype task_status = Pending | Processing | Complete | Failed

record ProgressUpdate =
  u_task_id :: string
  u_stage :: ProcessingStage
  u_percent :: nat
  u_message :: string
  u_timestamp :: time

record UploadResponse =
  resp_task_id :: string
  resp_status :: string
  resp_message :: string

record TaskStatus =
  ts_task_id :: string
  ts_status :: task_status
  ts_progress :: "ProgressUpdate option"
  ts_midi_url :: "string option"
  ts_drum_url :: "string option"
  ts_error :: "string option"

text \<open>A task record: the dict stored in \<open>task_registry\<close>; a key not yet set is \<open>None\<close>.\<close>

record task =
  status :: task_status
  upload_path :: path
  filename :: string
  created_at :: time
  progress :: "ProgressUpdate option"
  midi_path :: "path option"
  drum_path :: "path option"
  error :: "string option"

definition UPLOAD_DIR :: path where
  "UPLOAD_DIR = [''tmp'', ''drumextract'', ''uploads'']"

definition OUTPUT_DIR :: path where
  "OUTPUT_DIR = [''tmp'', ''drumextract'', ''outputs'']"

definition ALLOWED_EXTENSIONS :: "string set" where
  "ALLOWED_EXTENSIONS = {''.wav'', ''.mp3'', ''.m4a'', ''.flac''}"

definition MAX_FILE_SIZE :: nat where
  "MAX_FILE_SIZE = 100 * 1024 * 1024"

text \<open>
  What a handler sends on its connection. \<open>ErrorFrame e t\<close> is
  \<open>{"error": e, "task_id": t}\<close>; \<open>CompleteFrame t m d ts\<close> is the terminal frame with the
  two download references; \<open>FailedFrame details t ts\<close> is the terminal
  \<open>"Processing failed"\<close> frame.
\<close>

datatype frame =
    ErrorFrame string string
  | ProgressFrame ProgressUpdate
  | CompleteFrame string string string time
  | FailedFrame string string time

text \<open>
  A client connection: the frames delivered so far, whether the server closed it, and the
  client's behaviour: \<open>drop_after = Some k\<close> is a client that is gone once \<open>k\<close> frames
  were delivered, so that every later \<open>send_json\<close> raises \<open>drop_error\<close>.
\<close>

record websocket =
  sent :: "frame list"
  closed :: bool
  drop_after :: "nat option"
  drop_error :: string

definition send_json :: "frame \<Rightarrow> websocket \<Rightarrow> error + websocket" where
  "send_json f w =
     (if (case drop_after w of None \<Rightarrow> True | Some k \<Rightarrow> length (sent w) < k)
      then Inr (w\<lparr>sent := sent w @ [f]\<rparr>)
      else Inl (External (drop_error w)))"

definition close :: "websocket \<Rightarrow> websocket" where
  "close w = w\<lparr>closed := True\<rparr>"

text \<open>
  The registry maps a task identifier to a dict object; the objects live in \<open>heap\<close>, since
  a running handler keeps its reference \<open>task\<close> when the registry entry is deleted. A
  \<open>run\<close> is one invocation of \<open>process_audio\<close> that passed the guards, with the place
  it is suspended at.
\<close>

type_synonym ref = nat

datatype phase =
    Streaming gen_state
  | Completing
  | Failing error
  | Closing "error option"
  | Returned "error option"

record run =
  r_task_id :: string
  r_task :: ref
  r_upload_path :: path
  r_ws :: websocket
  r_phase :: phase

record state =
  task_registry :: "string \<rightharpoonup> ref"
  heap :: "task list"
  runs :: "run list"
  files :: fs

datatype upload_exc = TooLarge | Raised error

text \<open>
  What an HTTP handler answers: its value, an \<open>HTTPException\<close> with status code and
  detail, the \<open>HTTPException(500, "Upload failed: ...")\<close> of \<open>upload_audio\<close> with the
  exception it caught, or an exception that leaves the handler.
\<close>

datatype 'a response =
    Ok 'a
  | HTTPException nat string
  | UploadFailed upload_exc
  | Unhandled error

subsection \<open>Upload\<close>

record UploadFile =
  uf_filename :: "string option"
  uf_read :: "error + string"

fun split_slash :: "string \<Rightarrow> string list" where
  "split_slash [] = [[]]"
| "split_slash (c # cs) =
     (if c = CHR ''/'' then [] # split_slash cs
      else case split_slash cs of [] \<Rightarrow> [[c]] | w # ws \<Rightarrow> (c # w) # ws)"

text \<open>\<open>Path(s)\<close>: the components of a path string.\<close>

definition path_of_string :: "string \<Rightarrow> path" where
  "path_of_string s = filter (\<lambda>w. w \<noteq> [] \<and> w \<noteq> ''.'') (split_slash s)"

definition lower_char :: "char \<Rightarrow> char" where
  "lower_char c =
     (case map_of (zip ''ABCDEFGHIJKLMNOPQRSTUVWXYZ'' ''abcdefghijklmnopqrstuvwxyz'') c of
        None \<Rightarrow> c
      | Some d \<Rightarrow> d)"

definition lower :: "string \<Rightarrow> string" where
  "lower s = map lower_char s"

text \<open>
  The body of the \<open>try\<close> block: \<open>None\<close> when it reaches its \<open>return\<close>, else the exception
  it raised. \<open>task_id\<close> is the value \<open>uuid.uuid4()\<close> gave, \<open>now\<close> the clock, \<open>room\<close> the
  space left on the device.
\<close>

definition upload_try ::
    "UploadFile \<Rightarrow> string \<Rightarrow> string \<Rightarrow> path \<Rightarrow> time \<Rightarrow> nat option \<Rightarrow> state
       \<Rightarrow> upload_exc option \<times> state" where
  "upload_try file fname task_id upload_path' now room s =
     (case uf_read file of
        Inl e \<Rightarrow> (Some (Raised e), s)
      | Inr content' \<Rightarrow>
          if length content' > MAX_FILE_SIZE then (Some TooLarge, s)
          else (case write_file upload_path' content' now room (files s) of
             (Some e, fs') \<Rightarrow> (Some (Raised e), s\<lparr>files := fs'\<rparr>)
           | (None, fs') \<Rightarrow>
               (None, s\<lparr>files := fs',
                        task_registry := (task_registry s)(task_id \<mapsto> length (heap s)),
                        heap := heap s @
                          [\<lparr>status = Pending, upload_path = upload_path', filename = fname,
                            created_at = now, progress = None, midi_path = None,
                            drum_path = None, error = None\<rparr>]\<rparr>)))"

definition upload_audio ::
    "UploadFile \<Rightarrow> string \<Rightarrow> time \<Rightarrow> nat option \<Rightarrow> state \<Rightarrow> UploadResponse response \<times> state" where
  "upload_audio file task_id now room s =
     (case uf_filename file of
        None \<Rightarrow> (Unhandled (TypeError ''expected str, bytes or os.PathLike object, not NoneType''), s)
      | Some fname \<Rightarrow>
     (let file_ext = lower (suffix_of (path_name (path_of_string fname))) in
      if file_ext \<in> ALLOWED_EXTENSIONS then
        (let upload_path' = UPLOAD_DIR @ [task_id @ file_ext] in
         case upload_try file fname task_id upload_path' now room s of
           (None, s') \<Rightarrow>
             (Ok \<lparr>resp_task_id = task_id, resp_status = ''success'',
                  resp_message = ''File uploaded successfully. Connect to /ws/process/'' @ task_id\<rparr>,
              s')
         | (Some x, s') \<Rightarrow>
             if path_exists (files s') upload_path' then
               (case unlink upload_path' (files s') of
                  Inl e \<Rightarrow> (Unhandled e, s')
                | Inr fs' \<Rightarrow> (UploadFailed x, s'\<lparr>files := fs'\<rparr>))
             else (UploadFailed x, s'))
      else (HTTPException 400 ''Unsupported file type'', s)))"

subsection \<open>The progress subscription\<close>

definition update_task :: "ref \<Rightarrow> (task \<Rightarrow> task) \<Rightarrow> state \<Rightarrow> state" where
  "update_task t f s = s\<lparr>heap := (heap s)[t := f (heap s ! t)]\<rparr>"

datatype begin_result = Started run | Done "error option" websocket

text \<open>
  \<open>process_audio\<close> from the return of \<open>websocket.accept()\<close> up to and including
  \<open>task["status"] = "processing"\<close>; no \<open>await\<close> lies between its guard and that
  assignment. A rejection sends its frame outside any \<open>try\<close>: when the send raises,
  the exception leaves the handler and the connection is not closed.
\<close>

definition reject :: "string \<Rightarrow> string \<Rightarrow> websocket \<Rightarrow> begin_result" where
  "reject msg task_id w =
     (case send_json (ErrorFrame msg task_id) w of
        Inl e \<Rightarrow> Done (Some e) w
      | Inr w' \<Rightarrow> Done None (close w'))"

definition process_audio_begin :: "string \<Rightarrow> websocket \<Rightarrow> state \<Rightarrow> begin_result \<times> state" where
  "process_audio_begin task_id w s =
     (case task_registry s task_id of
        None \<Rightarrow> (reject ''Invalid task ID'' task_id w, s)
      | Some t \<Rightarrow>
          if status (heap s ! t) = Processing
          then (reject ''Task already processing'' task_id w, s)
          else (Started \<lparr>r_task_id = task_id, r_task = t,
                         r_upload_path = upload_path (heap s ! t),
                         r_ws = w, r_phase = Streaming Start\<rparr>,
                update_task t (\<lambda>x. x\<lparr>status := Processing\<rparr>) s))"

text \<open>The \<open>except\<close> handler's two assignments.\<close>

definition set_failed :: "ref \<Rightarrow> error \<Rightarrow> state \<Rightarrow> state" where
  "set_failed t e s = update_task t (\<lambda>x. x\<lparr>status := Failed, error := Some (str_of e)\<rparr>) s"

text \<open>
  One step of a run, from one suspension to the next: a turn of the \<open>async for\<close> loop
  (resume the generator, send the update, store it), the terminal frame after the loop,
  the error frame of the \<open>except\<close> handler, or the \<open>finally\<close> clause.
\<close>

definition run_step :: "collab \<Rightarrow> time \<Rightarrow> run \<Rightarrow> state \<Rightarrow> run \<times> state" where
  "run_step C now r s = (case r_phase r of
       Streaming g \<Rightarrow>
         (case gen_next C now OUTPUT_DIR (r_task_id r) (r_upload_path r) g (files s) of
            (Yield p, g', fs') \<Rightarrow>
              (let update = \<lparr>u_task_id = r_task_id r, u_stage = stage p, u_percent = percent p,
                             u_message = message p, u_timestamp = now\<rparr>
               in case send_json (ProgressFrame update) (r_ws r) of
                    Inl e \<Rightarrow> (r\<lparr>r_phase := Failing e\<rparr>, set_failed (r_task r) e (s\<lparr>files := fs'\<rparr>))
                  | Inr w' \<Rightarrow>
                      (r\<lparr>r_ws := w', r_phase := Streaming g'\<rparr>,
                       update_task (r_task r) (\<lambda>x. x\<lparr>progress := Some update\<rparr>) (s\<lparr>files := fs'\<rparr>)))
          | (StopIteration, g', fs') \<Rightarrow>
              (r\<lparr>r_phase := Completing\<rparr>,
               update_task (r_task r)
                 (\<lambda>x. x\<lparr>status := Complete,
                         midi_path := Some (OUTPUT_DIR @ [r_task_id r @ ''_drums.mid'']),
                         drum_path := Some (OUTPUT_DIR @ [r_task_id r @ ''_drums.wav''])\<rparr>)
                 (s\<lparr>files := fs'\<rparr>))
          | (Raise e, g', fs') \<Rightarrow>
              (r\<lparr>r_phase := Failing e\<rparr>, set_failed (r_task r) e (s\<lparr>files := fs'\<rparr>)))
     | Completing \<Rightarrow>
         (case send_json (CompleteFrame (r_task_id r) (''/download/midi/'' @ r_task_id r)
                            (''/download/drum/'' @ r_task_id r) now) (r_ws r) of
            Inl e \<Rightarrow> (r\<lparr>r_phase := Failing e\<rparr>, set_failed (r_task r) e s)
          | Inr w' \<Rightarrow> (r\<lparr>r_ws := w', r_phase := Closing None\<rparr>, s))
     | Failing e \<Rightarrow>
         (case send_json (FailedFrame (str_of e) (r_task_id r) now) (r_ws r) of
            Inl e' \<Rightarrow> (r\<lparr>r_phase := Closing (Some e')\<rparr>, s)
          | Inr w' \<Rightarrow> (r\<lparr>r_ws := w', r_phase := Closing None\<rparr>, s))
     | Closing x \<Rightarrow> (r\<lparr>r_ws := close (r_ws r), r_phase := Returned x\<rparr>, s)
     | Returned x \<Rightarrow> (r, s))"

fun phase_rank :: "phase \<Rightarrow> nat" where
  "phase_rank (Streaming g) = 13 - gen_rank g"
| "phase_rank Completing = 3"
| "phase_rank (Failing e) = 2"
| "phase_rank (Closing x) = 1"
| "phase_rank (Returned x) = 0"

text \<open>
  The handler run to its end with nothing else interleaved. \<open>clock k\<close> is what
  \<open>datetime.now()\<close> reads when \<open>k\<close> frames have been delivered.
\<close>

function run_to_end :: "collab \<Rightarrow> (nat \<Rightarrow> time) \<Rightarrow> run \<Rightarrow> state \<Rightarrow> run \<times> state" where
  "run_to_end C clock r s =
     (case r_phase r of
        Returned x \<Rightarrow> (r, s)
      | _ \<Rightarrow> (case run_step C (clock (length (sent (r_ws r)))) r s of
                (r', s') \<Rightarrow> run_to_end C clock r' s'))"
  by pat_completeness auto
termination
  apply (relation "measure (\<lambda>(C, clock, r, s). phase_rank (r_phase r))")
  subgoal by simp
  subgoal for C clock r s g r' s'
    by (cases g)
       (auto simp: run_step_def Let_def
             split: prod.splits sum.splits option.splits gen_result.splits)
  subgoal by (auto simp: run_step_def split: sum.splits)
  subgoal by (auto simp: run_step_def split: sum.splits)
  subgoal by (auto simp: run_step_def)
  done

declare run_to_end.simps [simp del]

definition process_audio ::
    "collab \<Rightarrow> (nat \<Rightarrow> time) \<Rightarrow> string \<Rightarrow> websocket \<Rightarrow> state
       \<Rightarrow> (error option \<times> websocket) \<times> state" where
  "process_audio C clock task_id w s =
     (case process_audio_begin task_id w s of
        (Done x w', s') \<Rightarrow> ((x, w'), s')
      | (Started r, s') \<Rightarrow>
          (case run_to_end C clock r s' of
             (r', s'') \<Rightarrow>
               ((case r_phase r' of Returned x \<Rightarrow> x | _ \<Rightarrow> None, r_ws r'), s'')))"

subsection \<open>Status query, downloads, cancellation\<close>

definition get_status :: "string \<Rightarrow> state \<Rightarrow> TaskStatus response" where
  "get_status task_id s =
     (case task_registry s task_id of
        None \<Rightarrow> HTTPException 404 ''Task not found''
      | Some t \<Rightarrow>
          (let x = heap s ! t in
           Ok \<lparr>ts_task_id = task_id, ts_status = status x, ts_progress = progress x,
               ts_midi_url = (if status x = Complete then Some (''/download/midi/'' @ task_id)
                              else None),
               ts_drum_url = (if status x = Complete then Some (''/download/drum/'' @ task_id)
                              else None),
               ts_error = error x\<rparr>))"

text \<open>A \<open>FileResponse\<close>: path, media type and download file name.\<close>

definition download ::
    "(task \<Rightarrow> path option) \<Rightarrow> string \<Rightarrow> string \<Rightarrow> string \<Rightarrow> string \<Rightarrow> string \<Rightarrow> state
       \<Rightarrow> (path \<times> string \<times> string) response" where
  "download field key missing media ext task_id s =
     (case task_registry s task_id of
        None \<Rightarrow> HTTPException 404 ''Task not found''
      | Some t \<Rightarrow>
          (let x = heap s ! t in
           if status x = Complete then
             (case field x of
                None \<Rightarrow> Unhandled (KeyError key)
              | Some p \<Rightarrow>
                  if path_exists (files s) p then Ok (p, media, filename x @ ext)
                  else HTTPException 404 missing)
           else HTTPException 400 ''Processing not complete''))"

definition download_midi :: "string \<Rightarrow> state \<Rightarrow> (path \<times> string \<times> string) response" where
  "download_midi = download midi_path ''midi_path'' ''MIDI file not found'' ''audio/midi'' ''_drums.mid''"

definition download_drum_audio :: "string \<Rightarrow> state \<Rightarrow> (path \<times> string \<times> string) response" where
  "download_drum_audio =
     download drum_path ''drum_path'' ''Drum audio not found'' ''audio/wav'' ''_drums.wav''"

text \<open>The loop of \<open>cancel_task\<close> over the three path keys; a key not in the dict is \<open>None\<close>.\<close>

fun cancel_files :: "path option list \<Rightarrow> fs \<Rightarrow> error option \<times> fs" where
  "cancel_files [] fs = (None, fs)"
| "cancel_files (None # ks) fs = cancel_files ks fs"
| "cancel_files (Some p # ks) fs =
     (if path_exists fs p then
        (case unlink p fs of
           Inl e \<Rightarrow> (Some e, fs)
         | Inr fs' \<Rightarrow> cancel_files ks fs')
      else cancel_files ks fs)"

definition cancel_task :: "string \<Rightarrow> state \<Rightarrow> unit response \<times> state" where
  "cancel_task task_id s =
     (case task_registry s task_id of
        None \<Rightarrow> (HTTPException 404 ''Task not found'', s)
      | Some t \<Rightarrow>
          (let x = heap s ! t in
           case cancel_files [Some (upload_path x), midi_path x, drum_path x] (files s) of
             (Some e, fs') \<Rightarrow> (Unhandled e, s\<lparr>files := fs'\<rparr>)
           | (None, fs') \<Rightarrow>
               (Ok (), s\<lparr>files := fs', task_registry := (task_registry s)(task_id := None)\<rparr>)))"

subsection \<open>The retention sweep\<close>

definition hour :: time where
  "hour = 3600000000"

text \<open>What is left when another actor removes \<open>p\<close> and what is below it.\<close>

definition vanish :: "path \<Rightarrow> fs \<Rightarrow> fs" where
  "vanish p fs = filter (\<lambda>(q, n). \<not> prefix p q) fs"

text \<open>
  The body of the inner loop for one entry of the listing. \<open>raced\<close> are the entries that
  another actor of the system removes while the sweep handles them, after the sweep
  has looked at their type and before it reads or removes them.
\<close>

definition sweep_item :: "time \<Rightarrow> path list \<Rightarrow> path \<Rightarrow> fs \<Rightarrow> error option \<times> fs" where
  "sweep_item cutoff raced item fs =
     (if is_file fs item then
        (let fs1 = (if item \<in> set raced then vanish item fs else fs) in
         case stat fs1 item of
           Inl e \<Rightarrow> (Some e, fs1)
         | Inr st \<Rightarrow>
             if mtime st < cutoff then
               (case unlink item fs1 of
                  Inl e \<Rightarrow> (Some e, fs1)
                | Inr fs2 \<Rightarrow> (None, fs2))
             else (None, fs1))
      else if is_dir fs item then
        (let fs1 = (if item \<in> set raced then vanish item fs else fs) in
         case rmtree item fs1 of
           Inl e \<Rightarrow> (None, fs1)
         | Inr fs2 \<Rightarrow> (None, fs2))
      else (None, fs))"

fun sweep_items :: "time \<Rightarrow> path list \<Rightarrow> path list \<Rightarrow> fs \<Rightarrow> error option \<times> fs" where
  "sweep_items cutoff raced [] fs = (None, fs)"
| "sweep_items cutoff raced (item # items) fs =
     (case sweep_item cutoff raced item fs of
        (Some e, fs') \<Rightarrow> (Some e, fs')
      | (None, fs') \<Rightarrow> sweep_items cutoff raced items fs')"

fun sweep_dirs :: "time \<Rightarrow> path list \<Rightarrow> path list \<Rightarrow> fs \<Rightarrow> error option \<times> fs" where
  "sweep_dirs cutoff raced [] fs = (None, fs)"
| "sweep_dirs cutoff raced (directory # ds) fs =
     (case iterdir fs directory of
        Inl e \<Rightarrow> (Some e, fs)
      | Inr items \<Rightarrow>
          (case sweep_items cutoff raced items fs of
             (Some e, fs') \<Rightarrow> (Some e, fs')
           | (None, fs') \<Rightarrow> sweep_dirs cutoff raced ds fs'))"

text \<open>One turn of the \<open>while True\<close> loop, after its sleep, at time \<open>now\<close>.\<close>

definition sweep_pass :: "time \<Rightarrow> path list \<Rightarrow> fs \<Rightarrow> error option \<times> fs" where
  "sweep_pass now raced fs = sweep_dirs (now - hour) raced [UPLOAD_DIR, OUTPUT_DIR] fs"


subsection \<open>The system: handlers interleaved at their suspension points\<close>

text \<open>
  An operation is one uninterrupted stretch of a handler: a whole HTTP handler, the
  start of a subscription, or one step of the \<open>i\<close>-th run.
\<close>

datatype op =
    Upload UploadFile string time "nat option"
  | Subscribe string websocket
  | Advance nat time
  | GetStatus string
  | DownloadMidi string
  | DownloadDrum string
  | Cancel string
  | Sweep time

fun exec :: "collab \<Rightarrow> op \<Rightarrow> state \<Rightarrow> state" where
  "exec C (Upload file task_id now room) s = snd (upload_audio file task_id now room s)"
| "exec C (Subscribe task_id w) s =
     (case process_audio_begin task_id w s of
        (Started r, s') \<Rightarrow> s'\<lparr>runs := runs s' @ [r]\<rparr>
      | (Done x w', s') \<Rightarrow> s')"
| "exec C (Advance i now) s =
     (if i < length (runs s) then
        (case run_step C now (runs s ! i) s of
           (r', s') \<Rightarrow> s'\<lparr>runs := (runs s')[i := r']\<rparr>)
      else s)"
| "exec C (GetStatus task_id) s = s"
| "exec C (DownloadMidi task_id) s = s"
| "exec C (DownloadDrum task_id) s = s"
| "exec C (Cancel task_id) s = snd (cancel_task task_id s)"
| "exec C (Sweep now) s = s\<lparr>files := snd (sweep_pass now [] (files s))\<rparr>"


text \<open>The state at start-up: the two directories exist, nothing else does.\<close>

definition init_files :: fs where
  "init_files = [([''tmp''], Dir 0 new_dir_size), ([''tmp'', ''drumextract''], Dir 0 new_dir_size),
     (UPLOAD_DIR, Dir 0 new_dir_size), (OUTPUT_DIR, Dir 0 new_dir_size)]"

definition init :: state where
  "init = \<lparr>task_registry = Map.empty, heap = [], runs = [], files = init_files\<rparr>"

section \<open>The specification's side\<close>




text \<open>The order of the stages, and the seven events of a run that succeeds.\<close>

fun stage_rank :: "ProcessingStage \<Rightarrow> nat" where
  "stage_rank SEPARATION = 0"
| "stage_rank MIDI_CONVERSION = 1"
| "stage_rank VALIDATION = 2"
| "stage_rank COMPLETE = 3"

definition sep0 :: progress_dict where
  "sep0 = \<lparr>stage = SEPARATION, percent = 0, message = ''Initializing Spleeter engine...''\<rparr>"

definition sep100 :: progress_dict where
  "sep100 = \<lparr>stage = SEPARATION, percent = 100, message = ''Drum stem isolated successfully''\<rparr>"

definition midi0 :: progress_dict where
  "midi0 = \<lparr>stage = MIDI_CONVERSION, percent = 0, message = ''Analyzing drum transients...''\<rparr>"

definition midi100 :: progress_dict where
  "midi100 = \<lparr>stage = MIDI_CONVERSION, percent = 100, message = ''MIDI extraction complete''\<rparr>"

definition val0 :: progress_dict where
  "val0 = \<lparr>stage = VALIDATION, percent = 0, message = ''Validating output files...''\<rparr>"

definition val100 :: progress_dict where
  "val100 = \<lparr>stage = VALIDATION, percent = 100, message = ''All outputs validated''\<rparr>"

definition done100 :: progress_dict where
  "done100 = \<lparr>stage = COMPLETE, percent = 100,
     message = ''Processing complete - ready for download''\<rparr>"

definition all_events :: "progress_dict list" where
  "all_events = [sep0, sep100, midi0, midi100, val0, val100, done100]"

definition is_ok :: "'a response \<Rightarrow> bool" where
  "is_ok r = (case r of Ok x \<Rightarrow> True | _ \<Rightarrow> False)"

section \<open>Concrete collaborators, clients and states\<close>

text \<open>
  A separator that writes \<open>drums.wav\<close> into the folder named after the input, a
  transcriber that writes a MIDI file beside its input's name, and collaborators that
  return without writing anything.
\<close>

definition good_separator :: "path \<Rightarrow> path \<Rightarrow> fs \<Rightarrow> error option \<times> fs" where
  "good_separator audio out fs =
     (None, fs @ [(out @ [stem_of (path_name audio)], Dir 0 new_dir_size),
                  (out @ [stem_of (path_name audio), ''drums.wav''],
                   File 0 (replicate 1000 (CHR ''d'')))])"

definition good_transcriber :: "path \<Rightarrow> path \<Rightarrow> fs \<Rightarrow> error option \<times> fs" where
  "good_transcriber audio out fs =
     (None, fs @ [(out @ [stem_of (path_name audio) @ ''_basic_pitch.mid''],
                   File 0 (''MThd'' @ replicate 96 (CHR ''m'')))])"

definition writes_nothing :: "path \<Rightarrow> path \<Rightarrow> fs \<Rightarrow> error option \<times> fs" where
  "writes_nothing audio out fs = (None, fs)"

definition good_collab :: collab where
  "good_collab = \<lparr>new_separator = None, separate_to_file = good_separator,
     predict_and_save = good_transcriber\<rparr>"

definition no_drums_collab :: collab where
  "no_drums_collab = \<lparr>new_separator = None, separate_to_file = writes_nothing,
     predict_and_save = good_transcriber\<rparr>"

definition no_midi_collab :: collab where
  "no_midi_collab = \<lparr>new_separator = None, separate_to_file = good_separator,
     predict_and_save = writes_nothing\<rparr>"

definition live_client :: websocket where
  "live_client = \<lparr>sent = [], closed = False, drop_after = None, drop_error = []\<rparr>"


definition t1_upload :: path where
  "t1_upload = UPLOAD_DIR @ [''t1.wav'']"

definition t1_task :: "task_status \<Rightarrow> task" where
  "t1_task st = \<lparr>status = st, upload_path = t1_upload, filename = ''song.wav'',
     created_at = 0, progress = None, midi_path = None, drum_path = None, error = None\<rparr>"

definition t1_state :: "task_status \<Rightarrow> state" where
  "t1_state st = \<lparr>task_registry = [''t1'' \<mapsto> 0], heap = [t1_task st], runs = [],
     files = init_files @ [(t1_upload, File 0 ''RIFF'')]\<rparr>"

definition wav_upload :: "string \<Rightarrow> UploadFile" where
  "wav_upload data = \<lparr>uf_filename = Some ''Song.WAV'', uf_read = Inr data\<rparr>"

definition still_clock :: "nat \<Rightarrow> time" where
  "still_clock k = 0"








text \<open>A client that takes at least the next \<open>n\<close> frames.\<close>

definition takes :: "nat \<Rightarrow> websocket \<Rightarrow> bool" where
  "takes n w = (case drop_after w of None \<Rightarrow> True | Some k \<Rightarrow> length (sent w) + n \<le> k)"


definition t1_drums :: path where
  "t1_drums = OUTPUT_DIR @ [''t1_drums.wav'']"

definition t1_separated :: fs where
  "t1_separated = init_files @
     [(t1_upload, File 0 ''RIFF''), (t1_drums, File 0 (replicate 1000 (CHR ''d'')))]"








section \<open>Properties\<close>

subsection \<open>Evaluation of the concrete examples\<close>

lemmas path_eval = UPLOAD_DIR_def OUTPUT_DIR_def path_name_def path_of_string_def
  suffix_of_def stem_of_def rfind_dot_def lower_def lower_char_def path_str_def stems_dir_def

lemmas fs_eval = node_at_def path_exists_def is_file_def is_dir_def parent_err_def
  mkdir_exist_ok_def rmtree_def unlink_def rename_def stat_def iterdir_def write_file_def
  has_children_def move_entry_def st_size_def read_header_def new_dir_size_def vanish_def

lemmas upload_eval = upload_audio_def upload_try_def wav_upload_def ALLOWED_EXTENSIONS_def
  MAX_FILE_SIZE_def init_def init_files_def Let_def

subsection \<open>The validation stage\<close>


subsection \<open>The events of a pipeline run\<close>

lemmas ev_defs = sep0_def sep100_def midi0_def midi100_def val0_def val100_def done100_def

lemma drain_complete: "drain C clock out tid audio At_complete fs = ([], None, fs)"
  by (subst drain.simps) simp

lemma drain_val100: "drain C clock out tid audio At_val100 fs = ([done100], None, fs)"
  by (subst drain.simps) (simp add: drain_complete ev_defs)

lemma drain_val0:
  "drain C clock out tid audio (At_val0 d m) fs =
     (case validate_outputs fs d m of
        Some e \<Rightarrow> ([], Some e, fs)
      | None \<Rightarrow> ([val100, done100], None, fs))"
  by (subst drain.simps) (simp add: drain_val100 ev_defs split: option.splits)

lemma drain_midi100:
  "drain C clock out tid audio (At_midi100 d m) fs =
     (case validate_outputs fs d m of
        Some e \<Rightarrow> ([val0], Some e, fs)
      | None \<Rightarrow> ([val0, val100, done100], None, fs))"
  by (subst drain.simps) (simp add: drain_val0 ev_defs split: option.splits)

lemma drain_midi0:
  "drain C clock out tid audio (At_midi0 d) fs =
     (case convert_to_midi C out tid d fs of
        (Inl e, fs2) \<Rightarrow> ([], Some e, fs2)
      | (Inr m, fs2) \<Rightarrow>
          (case validate_outputs fs2 d m of
             Some e \<Rightarrow> ([midi100, val0], Some e, fs2)
           | None \<Rightarrow> ([midi100, val0, val100, done100], None, fs2)))"
  by (subst drain.simps)
     (simp add: drain_midi100 ev_defs split: option.splits prod.splits sum.splits)

lemma drain_sep100:
  "drain C clock out tid audio (At_sep100 d) fs =
     (case convert_to_midi C out tid d fs of
        (Inl e, fs2) \<Rightarrow> ([midi0], Some e, fs2)
      | (Inr m, fs2) \<Rightarrow>
          (case validate_outputs fs2 d m of
             Some e \<Rightarrow> ([midi0, midi100, val0], Some e, fs2)
           | None \<Rightarrow> ([midi0, midi100, val0, val100, done100], None, fs2)))"
  by (subst drain.simps)
     (simp add: drain_midi0 ev_defs split: option.splits prod.splits sum.splits)

lemma process_unfold:
  "process C clock out tid audio fs =
     (case separate_drums C (clock 1) out tid audio fs of
        (Inl e, fs1) \<Rightarrow> ([sep0], Some e, fs1)
      | (Inr d, fs1) \<Rightarrow>
          (case convert_to_midi C out tid d fs1 of
             (Inl e, fs2) \<Rightarrow> ([sep0, sep100, midi0], Some e, fs2)
           | (Inr m, fs2) \<Rightarrow>
               (case validate_outputs fs2 d m of
                  Some e \<Rightarrow> ([sep0, sep100, midi0, midi100, val0], Some e, fs2)
                | None \<Rightarrow>
                    ([sep0, sep100, midi0, midi100, val0, val100, done100], None, fs2))))"
  unfolding process_def
  apply (subst drain.simps, simp)
  apply (subst drain.simps)
  apply (simp add: drain_sep100 ev_defs split: option.splits prod.splits sum.splits)
  done

lemma process_events_prefix:
  "\<exists>n. fst (process C clock out tid audio fs) = take n all_events"
proof -
  have "fst (process C clock out tid audio fs) \<in>
      {take 1 all_events, take 3 all_events, take 5 all_events, take 7 all_events}"
    by (simp add: process_unfold all_events_def split: prod.splits sum.splits option.splits)
  then show ?thesis by auto
qed

lemma sorted_stages: "sorted (map (stage_rank \<circ> stage) all_events)"
  by (simp add: all_events_def ev_defs)

lemma sorted_percent: "sorted (map percent (filter (\<lambda>e. stage e = st) all_events))"
  by (cases st) (simp_all add: all_events_def ev_defs)

text \<open>
  Claim C6. The events a pipeline run yields are in stage order (separation, then
  midi\_conversion, then validation, then complete), the percent values of each stage
  do not decrease, and the events are exactly these: the separation stage is entered
  after its event at 0; when it succeeds its event at 100 with its own message follows
  and then the transcription stage's event at 0; when transcription succeeds its event
  at 100 and the validation stage's event at 0; when validation succeeds its event at
  100 and the final event. A stage that raises ends the sequence with its error.
\<close>

theorem process_events_ordered:
  "(case process C clock out tid audio fs of (evs, r, fs') \<Rightarrow>
      sorted (map (stage_rank \<circ> stage) evs) \<and>
      (\<forall>st. sorted (map percent (filter (\<lambda>e. stage e = st) evs)))) \<and>
   process C clock out tid audio fs =
     (case separate_drums C (clock 1) out tid audio fs of
        (Inl e, fs1) \<Rightarrow> ([sep0], Some e, fs1)
      | (Inr d, fs1) \<Rightarrow>
          (case convert_to_midi C out tid d fs1 of
             (Inl e, fs2) \<Rightarrow> ([sep0, sep100, midi0], Some e, fs2)
           | (Inr m, fs2) \<Rightarrow>
               (case validate_outputs fs2 d m of
                  Some e \<Rightarrow> ([sep0, sep100, midi0, midi100, val0], Some e, fs2)
                | None \<Rightarrow>
                    ([sep0, sep100, midi0, midi100, val0, val100, done100], None, fs2))))"
proof -
  obtain n where n: "fst (process C clock out tid audio fs) = take n all_events"
    using process_events_prefix by blast
  have a: "sorted (map (stage_rank \<circ> stage) (take n all_events))"
    using sorted_stages by (simp add: take_map[symmetric] sorted_wrt_take del: take_map)
  have b: "sorted (map percent (filter (\<lambda>e. stage e = st) (take n all_events)))" for st
  proof -
    have "\<exists>k. filter (\<lambda>e. stage e = st) (take n all_events)
             = take k (filter (\<lambda>e. stage e = st) all_events)"
      by (metis append_take_drop_id filter_append take_all_iff append_eq_conv_conj)
    then show ?thesis
      using sorted_percent[of st]
      by (auto simp: take_map[symmetric] sorted_wrt_take simp del: take_map)
  qed
  have "case process C clock out tid audio fs of (evs, r, fs') \<Rightarrow>
      sorted (map (stage_rank \<circ> stage) evs) \<and>
      (\<forall>st. sorted (map percent (filter (\<lambda>e. stage e = st) evs)))"
    using n a b by (auto split: prod.splits)
  then show ?thesis
    using process_unfold[of C clock out tid audio fs] by blast
qed

subsection \<open>Single flight\<close>

text \<open>
  Claim C5. A subscription to a task whose status is processing is rejected: the handler
  sends the frame \<open>"Task already processing"\<close> (when its own client is there to take
  it), closes and returns, and the state of the system is the one before: the record, the
  store and every run in flight, with its connection and the place it is suspended at,
  are untouched, so no second pipeline run starts and the first subscription goes on as
  it would have.
\<close>

theorem second_subscription_rejected:
  assumes "task_registry s tid = Some t" and "status (heap s ! t) = Processing"
  shows "process_audio C clock tid w s =
           ((case send_json (ErrorFrame ''Task already processing'' tid) w of
               Inl e \<Rightarrow> (Some e, w)
             | Inr w' \<Rightarrow> (None, close w')), s) \<and>
         exec C (Subscribe tid w) s = s"
  using assms
  by (auto simp: process_audio_def process_audio_begin_def reject_def split: sum.splits)

theorem second_subscription_rejected_witness:
  "task_registry (t1_state Processing) ''t1'' = Some 0 \<and>
   status (heap (t1_state Processing) ! 0) = Processing \<and>
   process_audio good_collab (\<lambda>k. 0) ''t1'' live_client (t1_state Processing) =
     ((None, \<lparr>sent = [ErrorFrame ''Task already processing'' ''t1''], closed = True,
              drop_after = None, drop_error = []\<rparr>), t1_state Processing) \<and>
   exec good_collab (Subscribe ''t1'' live_client) (t1_state Processing) = t1_state Processing"
proof -
  have h1: "task_registry (t1_state Processing) ''t1'' = Some 0"
    by (simp add: t1_state_def)
  have h2: "status (heap (t1_state Processing) ! 0) = Processing"
    by (simp add: t1_state_def t1_task_def)
  have "send_json (ErrorFrame ''Task already processing'' ''t1'') live_client =
      Inr \<lparr>sent = [ErrorFrame ''Task already processing'' ''t1''], closed = False,
           drop_after = None, drop_error = []\<rparr>"
    by (simp add: send_json_def live_client_def)
  with second_subscription_rejected[OF h1 h2, of good_collab "\<lambda>k. 0" live_client] h1 h2
  show ?thesis
    by (simp add: close_def)
qed

subsection \<open>Upload\<close>

lemma node_at_delete: "p \<noteq> [] \<Longrightarrow> node_at (AList.delete p fs) p = None"
  by (simp add: node_at_def delete_conv')

lemma upload_try_some:
  "upload_try upl fname tid up now room s = (Some x, s') \<Longrightarrow>
     task_registry s' = task_registry s \<and> heap s' = heap s \<and> runs s' = runs s"
  by (auto simp: upload_try_def split: sum.splits if_splits prod.splits option.splits)

lemma upload_try_none:
  "upload_try upl fname tid up now room s = (None, s') \<Longrightarrow>
     task_registry s' tid = Some (length (heap s)) \<and>
     status (heap s' ! length (heap s)) = Pending"
  by (auto simp: upload_try_def split: sum.splits if_splits prod.splits option.splits)

text \<open>
  Claim C10. An upload whose extension is allowed, under a fresh task identifier,
  either succeeds, and then the registry has a record for the identifier, with status
  pending; or it ends in an error (the \<open>read\<close> failed, the payload is too large, the
  write failed, also half-way), and then no file is left at the upload path and the
  registry and its records are as before. So a record exists afterwards if and only if
  the upload succeeded.
\<close>

theorem upload_atomic:
  assumes "uf_filename upl = Some fname"
    and "lower (suffix_of (path_name (path_of_string fname))) = ext"
    and "ext \<in> ALLOWED_EXTENSIONS"
    and "task_registry s tid = None"
    and "upload_audio upl tid now room s = (res, s')"
  shows "(is_ok res \<longleftrightarrow> task_registry s' tid \<noteq> None) \<and>
         (is_ok res \<longrightarrow> (\<exists>t. task_registry s' tid = Some t \<and> status (heap s' ! t) = Pending)) \<and>
         (\<not> is_ok res \<longrightarrow>
            \<not> is_file (files s') (UPLOAD_DIR @ [tid @ ext]) \<and>
            task_registry s' = task_registry s \<and> heap s' = heap s)"
proof (cases "upload_try upl fname tid (UPLOAD_DIR @ [tid @ ext]) now room s")
  case (Pair x s1)
  show ?thesis
  proof (cases x)
    case None
    with Pair assms upload_try_none[of upl fname tid "UPLOAD_DIR @ [tid @ ext]" now room s s1]
    show ?thesis
      by (auto simp: upload_audio_def Let_def is_ok_def)
  next
    case (Some e)
    with Pair have u:
      "upload_try upl fname tid (UPLOAD_DIR @ [tid @ ext]) now room s = (Some e, s1)"
      by simp
    note k = upload_try_some[OF u]
    from assms Pair Some k show ?thesis
      by (auto simp: upload_audio_def Let_def is_ok_def unlink_def is_file_def path_exists_def
            node_at_delete
          split: option.splits node.splits if_splits)
  qed
qed

theorem upload_atomic_witness:
  "uf_filename (wav_upload ''abcdef'') = Some ''Song.WAV'' \<and>
   lower (suffix_of (path_name (path_of_string ''Song.WAV''))) = ''.wav'' \<and>
   ''.wav'' \<in> ALLOWED_EXTENSIONS \<and>
   task_registry init ''t2'' = None \<and>
   upload_audio (wav_upload ''abcdef'') ''t2'' 5 (Some 2) init =
     (UploadFailed (Raised (OSError ENOSPC (UPLOAD_DIR @ [''t2.wav'']) None)), init) \<and>
   \<not> is_ok (UploadFailed (Raised (OSError ENOSPC (UPLOAD_DIR @ [''t2.wav'']) None))
             :: UploadResponse response) \<and>
   \<not> is_file (files init) (UPLOAD_DIR @ [''t2.wav'']) \<and>
   fst (upload_audio (wav_upload ''abcdef'') ''t2'' 5 None init) =
     Ok \<lparr>resp_task_id = ''t2'', resp_status = ''success'',
         resp_message = ''File uploaded successfully. Connect to /ws/process/t2''\<rparr> \<and>
   (\<exists>t. task_registry (snd (upload_audio (wav_upload ''abcdef'') ''t2'' 5 None init)) ''t2''
          = Some t \<and>
        status (heap (snd (upload_audio (wav_upload ''abcdef'') ''t2'' 5 None init)) ! t)
          = Pending)"
proof -
  have h1: "uf_filename (wav_upload ''abcdef'') = Some ''Song.WAV''"
    by (simp add: wav_upload_def)
  have h2: "lower (suffix_of (path_name (path_of_string ''Song.WAV''))) = ''.wav''"
    by (simp add: path_eval)
  have h3: "''.wav'' \<in> ALLOWED_EXTENSIONS"
    by (simp add: ALLOWED_EXTENSIONS_def)
  have h4: "task_registry init ''t2'' = None"
    by (simp add: init_def)
  have h5: "upload_audio (wav_upload ''abcdef'') ''t2'' 5 (Some 2) init =
     (UploadFailed (Raised (OSError ENOSPC (UPLOAD_DIR @ [''t2.wav'']) None)), init)"
    by (simp add: upload_eval path_eval fs_eval)
  have h6: "fst (upload_audio (wav_upload ''abcdef'') ''t2'' 5 None init) =
     Ok \<lparr>resp_task_id = ''t2'', resp_status = ''success'',
         resp_message = ''File uploaded successfully. Connect to /ws/process/t2''\<rparr>"
    by (simp add: upload_eval path_eval fs_eval)
  have h7: "upload_audio (wav_upload ''abcdef'') ''t2'' 5 None init =
     (fst (upload_audio (wav_upload ''abcdef'') ''t2'' 5 None init),
      snd (upload_audio (wav_upload ''abcdef'') ''t2'' 5 None init))"
    by simp
  have ok: "is_ok (fst (upload_audio (wav_upload ''abcdef'') ''t2'' 5 None init))"
    by (simp add: h6 is_ok_def)
  from upload_atomic[OF h1 h2 h3 h4 h5] upload_atomic[OF h1 h2 h3 h4 h7] ok h1 h2 h3 h4 h5 h6
  show ?thesis
    by (simp add: is_ok_def)
qed

subsection \<open>The scratch directory of the separation stage\<close>

text \<open>
  Claim C3. The stems directory is to be deleted before \<open>_separate_drums\<close> returns, on
  every path. The source removes it only at the end of the path that succeeds: with a
  separator that writes no \<open>drums.wav\<close> the stage raises \<open>FileNotFoundError\<close> before its
  \<open>shutil.rmtree\<close>, and the directory it created is still there; with a separator that
  writes the file, the directory is gone afterwards.
\<close>

theorem separate_drums_leaves_stems_dir:
  "separate_drums no_drums_collab 0 OUTPUT_DIR ''t1'' t1_upload (files (t1_state Processing)) =
     (Inl (FileNotFoundError
        ''Spleeter did not generate drums.wav at /tmp/drumextract/outputs/t1_stems/t1/drums.wav''),
      files (t1_state Processing) @ [(stems_dir OUTPUT_DIR ''t1'', Dir 0 new_dir_size)]) \<and>
   is_dir (snd (separate_drums no_drums_collab 0 OUTPUT_DIR ''t1'' t1_upload
                  (files (t1_state Processing)))) (stems_dir OUTPUT_DIR ''t1'') \<and>
   path_exists (files (t1_state Processing)) (stems_dir OUTPUT_DIR ''t1'') = False \<and>
   fst (separate_drums good_collab 0 OUTPUT_DIR ''t1'' t1_upload (files (t1_state Processing))) =
     Inr (OUTPUT_DIR @ [''t1_drums.wav'']) \<and>
   path_exists (snd (separate_drums good_collab 0 OUTPUT_DIR ''t1'' t1_upload
                  (files (t1_state Processing)))) (stems_dir OUTPUT_DIR ''t1'') = False"
  by (simp add: separate_drums_def no_drums_collab_def good_collab_def writes_nothing_def
       good_separator_def t1_state_def t1_upload_def init_files_def path_eval fs_eval Let_def)

subsection \<open>The retention sweep and entries that vanish\<close>


subsection \<open>A handler run to its end\<close>

lemma run_to_end_returned:
  "r_phase r = Returned x \<Longrightarrow> run_to_end C clock r s = (r, s)"
  by (subst run_to_end.simps) simp

lemma run_to_end_closing:
  "r_phase r = Closing x \<Longrightarrow>
     run_to_end C clock r s = (r\<lparr>r_ws := close (r_ws r), r_phase := Returned x\<rparr>, s)"
  by (subst run_to_end.simps) (simp add: run_step_def run_to_end_returned)

lemma run_to_end_failing:
  "r_phase r = Failing e \<Longrightarrow>
     snd (run_to_end C clock r s) = s \<and>
     (\<exists>x. r_phase (fst (run_to_end C clock r s)) = Returned x) \<and>
     closed (r_ws (fst (run_to_end C clock r s)))"
  by (subst run_to_end.simps, subst run_to_end.simps, subst run_to_end.simps)
     (simp add: run_step_def run_to_end_closing close_def split: sum.splits)


lemma set_failed_lookup:
  "t < length (heap s) \<Longrightarrow>
     status (heap (set_failed t e s) ! t) = Failed \<and>
     error (heap (set_failed t e s) ! t) = Some (str_of e) \<and>
     files (set_failed t e s) = files s"
  by (simp add: set_failed_def update_task_def)






subsection \<open>A transcription that writes nothing\<close>

lemma takes_send:
  "takes (Suc n) w \<Longrightarrow>
     send_json f w = Inr (w\<lparr>sent := sent w @ [f]\<rparr>) \<and> takes n (w\<lparr>sent := sent w @ [f]\<rparr>)"
  by (auto simp: takes_def send_json_def split: option.splits)

lemma stem_drums: "stem_of (tid @ ''_drums.wav'') = tid @ ''_drums''"
  by (simp add: stem_of_def rfind_dot_def)

lemma map_of_filter_key:
  "map_of (filter (\<lambda>(q, n). P q) fs) k = (if P k then map_of fs k else None)"
  by (induction fs) auto

lemma map_of_move_entry:
  assumes "map_of fs src = Some n"
  shows "\<exists>n'. map_of (map (move_entry src dst) fs) dst = Some n'"
proof -
  from assms have "(src, n) \<in> set fs" by (rule map_of_SomeD)
  then have "move_entry src dst (src, n) \<in> move_entry src dst ` set fs"
    by (rule imageI)
  then have "(dst, n) \<in> set (map (move_entry src dst) fs)"
    by (simp add: move_entry_def)
  then have "fst (dst, n) \<in> fst ` set (map (move_entry src dst) fs)"
    by (rule imageI)
  then have "dst \<in> fst ` set (map (move_entry src dst) fs)"
    by (simp only: fst_conv)
  then have "map_of (map (move_entry src dst) fs) dst \<noteq> None"
    by (simp only: map_of_eq_None_iff not_False_eq_True not_not)
  then show ?thesis by auto
qed

lemma rename_target_exists:
  assumes "rename src dst fs = Inr fs'" and "src \<noteq> dst" and "dst \<noteq> []" and "src \<noteq> []"
  shows "path_exists fs' dst"
proof (cases "map_of fs src")
  case None
  with assms show ?thesis by (simp add: rename_def node_at_def)
next
  case (Some nd)
  show ?thesis
  proof (cases nd)
    case (File m c)
    with Some assms show ?thesis
      by (auto simp: rename_def path_exists_def node_at_def delete_conv' map_add_def
            split: option.splits if_splits)
  next
    case (Dir dm sz)
    with Some assms have fs': "fs' = map (move_entry src dst) (AList.delete dst fs)"
      by (auto simp: rename_def node_at_def split: option.splits if_splits)
    have "map_of (AList.delete dst fs) src = Some nd"
      using Some assms(2) by (simp add: delete_conv')
    from map_of_move_entry[OF this, of dst] fs' assms(3) show ?thesis
      by (auto simp: path_exists_def node_at_def)
  qed
qed

lemma separate_drums_success:
  assumes "separate_drums C now out tid audio fs = (Inr d, fs')"
  shows "d = out @ [tid @ ''_drums.wav''] \<and> path_exists fs' d"
proof -
  let ?src = "stems_dir out tid @ [stem_of (path_name audio)] @ [''drums.wav'']"
  let ?dst = "out @ [tid @ ''_drums.wav'']"
  from assms have "\<exists>fs2 fs3. rename ?src ?dst fs2 = Inr fs3 \<and>
      rmtree (stems_dir out tid) fs3 = Inr fs' \<and> d = ?dst"
    by (auto simp: separate_drums_def Let_def
          split: option.splits sum.splits prod.splits if_splits)
  then obtain fs2 fs3 where
      r: "rename ?src ?dst fs2 = Inr fs3" and
      t: "rmtree (stems_dir out tid) fs3 = Inr fs'" and d: "d = ?dst"
    by blast
  have "length ?src \<noteq> length ?dst"
    by (simp add: stems_dir_def)
  then have ne: "?src \<noteq> ?dst"
    by auto
  have e3: "path_exists fs3 ?dst"
    using rename_target_exists[OF r ne] by simp
  have np: "\<not> prefix (stems_dir out tid) ?dst"
    by (simp add: stems_dir_def)
  from t have "fs' = filter (\<lambda>(q, n). \<not> prefix (stems_dir out tid) q) fs3"
    by (auto simp: rmtree_def split: option.splits node.splits)
  then have "node_at fs' ?dst = node_at fs3 ?dst"
    using np by (simp add: node_at_def map_of_filter_key)
  with e3 d show ?thesis
    by (simp add: path_exists_def)
qed

lemma run_to_end_yield:
  assumes "r_phase r = Streaming g"
    and "gen_next C (clock (length (sent (r_ws r)))) OUTPUT_DIR (r_task_id r) (r_upload_path r) g
         (files s) = (Yield p, g', fs')"
    and "takes (Suc n) (r_ws r)"
  shows "\<exists>r' s'. run_to_end C clock r s = run_to_end C clock r' s' \<and>
           r_phase r' = Streaming g' \<and> r_task_id r' = r_task_id r \<and> r_task r' = r_task r \<and>
           r_upload_path r' = r_upload_path r \<and> takes n (r_ws r') \<and>
           files s' = fs' \<and> length (heap s') = length (heap s) \<and>
           length (sent (r_ws r')) = Suc (length (sent (r_ws r)))"
proof -
  let ?upd = "\<lparr>u_task_id = r_task_id r, u_stage = stage p, u_percent = percent p,
                u_message = message p, u_timestamp = clock (length (sent (r_ws r)))\<rparr>"
  let ?w = "(r_ws r)\<lparr>sent := sent (r_ws r) @ [ProgressFrame ?upd]\<rparr>"
  let ?r = "r\<lparr>r_ws := ?w, r_phase := Streaming g'\<rparr>"
  let ?s = "update_task (r_task r) (\<lambda>x. x\<lparr>progress := Some ?upd\<rparr>) (s\<lparr>files := fs'\<rparr>)"
  note snd = takes_send[OF assms(3), of "ProgressFrame ?upd"]
  have "run_step C (clock (length (sent (r_ws r)))) r s = (?r, ?s)"
    using assms(1,2) snd by (simp add: run_step_def Let_def)
  then have "run_to_end C clock r s = run_to_end C clock ?r ?s"
    using assms(1) by (subst run_to_end.simps) simp
  moreover have "takes n (r_ws ?r)" using snd by simp
  ultimately show ?thesis
    by (intro exI[of _ ?r] exI[of _ ?s]) (simp add: update_task_def)
qed

lemma run_to_end_raise:
  assumes "r_phase r = Streaming g"
    and "gen_next C (clock (length (sent (r_ws r)))) OUTPUT_DIR (r_task_id r) (r_upload_path r) g
         (files s) = (Raise e, g', fs')"
    and "r_task r < length (heap s)"
  shows "status (heap (snd (run_to_end C clock r s)) ! r_task r) = Failed \<and>
         error (heap (snd (run_to_end C clock r s)) ! r_task r) = Some (str_of e) \<and>
         files (snd (run_to_end C clock r s)) = fs'"
proof -
  let ?s1 = "set_failed (r_task r) e (s\<lparr>files := fs'\<rparr>)"
  let ?r1 = "r\<lparr>r_phase := Failing e\<rparr>"
  have "run_step C (clock (length (sent (r_ws r)))) r s = (?r1, ?s1)"
    using assms by (simp add: run_step_def)
  then have unf: "run_to_end C clock r s = run_to_end C clock ?r1 ?s1"
    using assms(1) by (subst run_to_end.simps) simp
  have f: "r_phase ?r1 = Failing e" by simp
  have len: "r_task r < length (heap (s\<lparr>files := fs'\<rparr>))" using assms(3) by simp
  show ?thesis
    using run_to_end_failing[OF f, of C clock ?s1] set_failed_lookup[OF len, of e]
    by (simp add: unf)
qed

lemma convert_no_file:
  assumes "predict_and_save C d out fs1 = (None, fs2)"
    and "path_exists fs2 (out @ [stem_of (path_name d) @ ''_basic_pitch.mid'']) = False"
  shows "convert_to_midi C out tid d fs1 =
     (Inl (FileNotFoundError (''Basic-Pitch did not generate MIDI at '' @
        path_str (out @ [stem_of (path_name d) @ ''_basic_pitch.mid'']))), fs2)"
  using assms by (simp add: convert_to_midi_def Let_def)

text \<open>
  Claim C8. Take a task that can be started, whose separation stage succeeds, whose
  client takes the first three progress frames, and whose transcription collaborator
  returns without raising and without writing \<open><task_id>_drums_basic_pitch.mid\<close>
  (and leaves the separated audio alone). Then the run leaves the record failed, its
  error text is \<open>Basic-Pitch did not generate MIDI at\<close> followed by the missing path,
  and the separated audio is still at \<open>OUTPUT_DIR/<task_id>_drums.wav\<close>.
\<close>

theorem missing_midi_fails_task:
  assumes reg: "task_registry s tid = Some t" and len: "t < length (heap s)"
    and st: "status (heap s ! t) \<noteq> Processing"
    and sep: "separate_drums C (clock (Suc (length (sent w)))) OUTPUT_DIR tid
               (upload_path (heap s ! t)) (files s) = (Inr d, fs1)"
    and ran: "predict_and_save C d OUTPUT_DIR fs1 = (None, fs2)"
    and nofile: "path_exists fs2 (OUTPUT_DIR @ [tid @ ''_drums_basic_pitch.mid'']) = False"
    and kept: "node_at fs2 d = node_at fs1 d"
    and conn: "takes 3 w"
  shows "status (heap (snd (process_audio C clock tid w s)) ! t) = Failed \<and>
         error (heap (snd (process_audio C clock tid w s)) ! t) =
           Some (''Basic-Pitch did not generate MIDI at '' @
                 path_str (OUTPUT_DIR @ [tid @ ''_drums_basic_pitch.mid''])) \<and>
         d = OUTPUT_DIR @ [tid @ ''_drums.wav''] \<and>
         files (snd (process_audio C clock tid w s)) = fs2 \<and>
         path_exists (files (snd (process_audio C clock tid w s))) d"
proof -
  note ds = separate_drums_success[OF sep]
  then have d: "d = OUTPUT_DIR @ [tid @ ''_drums.wav'']" and ex1: "path_exists fs1 d"
    by blast+
  have stem: "stem_of (path_name d) @ ''_basic_pitch.mid'' = tid @ ''_drums_basic_pitch.mid''"
    by (simp add: d path_name_def stem_drums)
  let ?e = "FileNotFoundError (''Basic-Pitch did not generate MIDI at '' @
              path_str (OUTPUT_DIR @ [tid @ ''_drums_basic_pitch.mid'']))"
  have conv: "convert_to_midi C OUTPUT_DIR tid d fs1 = (Inl ?e, fs2)"
    using convert_no_file[OF ran, of tid] nofile by (simp add: stem)
  let ?r0 = "\<lparr>r_task_id = tid, r_task = t, r_upload_path = upload_path (heap s ! t),
              r_ws = w, r_phase = Streaming Start\<rparr>"
  let ?s0 = "update_task t (\<lambda>x. x\<lparr>status := Processing\<rparr>) s"
  have pa: "snd (process_audio C clock tid w s) = snd (run_to_end C clock ?r0 ?s0)"
    using reg st by (simp add: process_audio_def process_audio_begin_def split: prod.splits)
  have c3: "takes (Suc 2) (r_ws ?r0)" using conn by (simp add: numeral_3_eq_3 eval_nat_numeral)
  have g0: "gen_next C (clock (length (sent (r_ws ?r0)))) OUTPUT_DIR (r_task_id ?r0) (r_upload_path ?r0) Start (files ?s0) =
      (Yield sep0, At_sep0, files s)"
    by (simp add: update_task_def sep0_def)
  from run_to_end_yield[where clock = clock and r = ?r0 and n = 2, OF _ g0 c3]
  obtain r1 s1 where
      e1: "run_to_end C clock ?r0 ?s0 = run_to_end C clock r1 s1" and
      p1: "r_phase r1 = Streaming At_sep0" "r_task_id r1 = tid" "r_task r1 = t"
          "r_upload_path r1 = upload_path (heap s ! t)" "takes 2 (r_ws r1)"
          "files s1 = files s" "length (heap s1) = length (heap s)"
          "length (sent (r_ws r1)) = Suc (length (sent w))"
    by (auto simp: update_task_def)
  have g1: "gen_next C (clock (length (sent (r_ws r1)))) OUTPUT_DIR (r_task_id r1) (r_upload_path r1) At_sep0 (files s1) =
      (Yield sep100, At_sep100 d, fs1)"
    using p1 sep by (simp add: sep100_def)
  have c2: "takes (Suc 1) (r_ws r1)" using p1 by (simp add: eval_nat_numeral)
  from run_to_end_yield[where clock = clock, OF p1(1) g1 c2]
  obtain r2 s2 where
      e2: "run_to_end C clock r1 s1 = run_to_end C clock r2 s2" and
      p2: "r_phase r2 = Streaming (At_sep100 d)" "r_task_id r2 = tid" "r_task r2 = t"
          "r_upload_path r2 = upload_path (heap s ! t)" "takes 1 (r_ws r2)"
          "files s2 = fs1" "length (heap s2) = length (heap s)"
    using p1 by auto
  have g2: "gen_next C (clock (length (sent (r_ws r2)))) OUTPUT_DIR (r_task_id r2) (r_upload_path r2) (At_sep100 d) (files s2) =
      (Yield midi0, At_midi0 d, fs1)"
    using p2 by (simp add: midi0_def)
  have c1: "takes (Suc 0) (r_ws r2)" using p2 by simp
  from run_to_end_yield[where clock = clock, OF p2(1) g2 c1]
  obtain r3 s3 where
      e3: "run_to_end C clock r2 s2 = run_to_end C clock r3 s3" and
      p3: "r_phase r3 = Streaming (At_midi0 d)" "r_task_id r3 = tid" "r_task r3 = t"
          "r_upload_path r3 = upload_path (heap s ! t)"
          "files s3 = fs1" "length (heap s3) = length (heap s)"
    using p2 by auto
  have g3: "gen_next C (clock (length (sent (r_ws r3)))) OUTPUT_DIR (r_task_id r3) (r_upload_path r3) (At_midi0 d) (files s3) =
      (Raise ?e, Exhausted, fs2)"
    using p3 conv by simp
  have l3: "r_task r3 < length (heap s3)" using p3 len by simp
  note fin = run_to_end_raise[where clock = clock, OF p3(1) g3 l3]
  have ex2: "path_exists fs2 d" using ex1 kept by (simp add: path_exists_def)
  show ?thesis
    using fin p3(3) d ex2 by (simp add: pa e1 e2 e3 str_of_def)
qed

theorem missing_midi_fails_task_witness:
  "task_registry (t1_state Pending) ''t1'' = Some 0 \<and>
   0 < length (heap (t1_state Pending)) \<and>
   status (heap (t1_state Pending) ! 0) \<noteq> Processing \<and>
   separate_drums no_midi_collab (still_clock (Suc (length (sent live_client)))) OUTPUT_DIR ''t1'' (upload_path (heap (t1_state Pending) ! 0))
       (files (t1_state Pending)) = (Inr t1_drums, t1_separated) \<and>
   predict_and_save no_midi_collab t1_drums OUTPUT_DIR t1_separated = (None, t1_separated) \<and>
   path_exists t1_separated (OUTPUT_DIR @ [''t1_drums_basic_pitch.mid'']) = False \<and>
   takes 3 live_client \<and>
   status (heap (snd (process_audio no_midi_collab still_clock ''t1'' live_client
                        (t1_state Pending))) ! 0) = Failed \<and>
   error (heap (snd (process_audio no_midi_collab still_clock ''t1'' live_client
                        (t1_state Pending))) ! 0) =
     Some ''Basic-Pitch did not generate MIDI at /tmp/drumextract/outputs/t1_drums_basic_pitch.mid'' \<and>
   path_exists (files (snd (process_audio no_midi_collab still_clock ''t1'' live_client
                        (t1_state Pending)))) t1_drums"
proof -
  have h1: "task_registry (t1_state Pending) ''t1'' = Some 0"
    by (simp add: t1_state_def)
  have h2: "0 < length (heap (t1_state Pending))"
    by (simp add: t1_state_def)
  have h3: "status (heap (t1_state Pending) ! 0) \<noteq> Processing"
    by (simp add: t1_state_def t1_task_def)
  have h4: "separate_drums no_midi_collab (still_clock (Suc (length (sent live_client)))) OUTPUT_DIR ''t1''
       (upload_path (heap (t1_state Pending) ! 0)) (files (t1_state Pending)) =
     (Inr t1_drums, t1_separated)"
    by (simp add: separate_drums_def no_midi_collab_def good_separator_def t1_state_def
         t1_task_def t1_upload_def t1_drums_def t1_separated_def init_files_def
         path_eval fs_eval Let_def)
  have h5: "predict_and_save no_midi_collab t1_drums OUTPUT_DIR t1_separated = (None, t1_separated)"
    by (simp add: no_midi_collab_def writes_nothing_def)
  have h6: "path_exists t1_separated (OUTPUT_DIR @ [''t1'' @ ''_drums_basic_pitch.mid'']) = False"
    by (simp add: t1_separated_def t1_drums_def t1_upload_def init_files_def path_eval fs_eval)
  have h7: "node_at t1_separated t1_drums = node_at t1_separated t1_drums"
    by simp
  have h8: "takes 3 live_client"
    by (simp add: takes_def live_client_def)
  have ps: "path_str (OUTPUT_DIR @ [''t1_drums_basic_pitch.mid'']) =
      ''/tmp/drumextract/outputs/t1_drums_basic_pitch.mid''"
    by (simp add: path_str_def OUTPUT_DIR_def)
  from missing_midi_fails_task[where clock = still_clock, OF h1 h2 h3 h4 h5 h6 h7 h8]
    h1 h2 h3 h4 h5 h6 h8
  show ?thesis
    by (auto simp: ps)
qed

subsection \<open>What a turn of the sweep removes\<close>




lemma child_length: "q \<noteq> [] \<Longrightarrow> butlast q = d \<Longrightarrow> length q = Suc (length d)"
  by (cases q rule: rev_cases) auto







subsection \<open>The status of a record\<close>




















end
